theory Spec2Isabelle
  imports Complex_Main
begin

section \<open>Values, jobs and errors\<close>

text \<open>
  The web layer of the task API (\<^verbatim>\<open>kolibri/core/tasks/api.py\<close>) builds JSON-like
  dictionaries. A dictionary is a map from keys to Python values; the values that the
  task API stores or inspects are the ones below.
\<close>

datatype state = SCHEDULED | QUEUED | RUNNING | CANCELING | CANCELED | COMPLETED | FAILED

datatype pyval =
    PNone
  | PBool bool
  | PInt int
  | PFloat rat
  | PStr string
  | PState state
  | PList "pyval list"
  | PDict "(string \<times> pyval) list"

type_synonym pydict = "string \<rightharpoonup> pyval"

text \<open>
  The exceptions that the task API raises, catches or lets through.
\<close>

datatype exn =
    JobNotFound
  | InvalidFunctionError
  | UserCancelledError
  | OSError
  | KeyError
  | TypeError
  | ValidationError string
  | Http404 string

text \<open>
  Modelled from the spec: the job class and its states (\<^verbatim>\<open>kolibri.core.tasks.job\<close>),
  which the task API imports. The fields are the ones of the data model:
  \<^verbatim>\<open>exception\<close> and \<^verbatim>\<open>traceback\<close> are optional diagnostic strings,
  \<^verbatim>\<open>percentage_progress\<close> is a fraction, and \<^verbatim>\<open>extra_metadata\<close> is the caller's
  dictionary. The task API reads the id as \<^verbatim>\<open>job.job_id\<close>.
\<close>

record job =
  job_id :: string
  function_reference :: string
  args :: "pyval list"
  kwargs :: pydict
  state :: state
  percentage_progress :: rat
  cancellable :: bool
  track_progress :: bool
  exception :: "string option"
  traceback :: "string option"
  extra_metadata :: pydict

text \<open>
  Python's \<^verbatim>\<open>str\<close> on an optional string: \<^verbatim>\<open>str(None)\<close> is the text \<^verbatim>\<open>None\<close>.
\<close>

definition str_py :: "string option \<Rightarrow> string" where
  "str_py v = (case v of None \<Rightarrow> ''None'' | Some s \<Rightarrow> s)"

text \<open>
  Python's truth value of a value, as tested by \<^verbatim>\<open>if task_id:\<close>.
\<close>

fun truthy :: "pyval \<Rightarrow> bool" where
  "truthy PNone = False"
| "truthy (PBool b) = b"
| "truthy (PInt i) = (i \<noteq> 0)"
| "truthy (PFloat f) = (f \<noteq> 0)"
| "truthy (PStr s) = (s \<noteq> [])"
| "truthy (PState s) = True"
| "truthy (PList xs) = (xs \<noteq> [])"
| "truthy (PDict kvs) = (kvs \<noteq> [])"

section \<open>The observer-facing summary\<close>

text \<open>
  \<^verbatim>\<open>_job_to_response(job)\<close>: a falsy job (\<^verbatim>\<open>None\<close>) gives the fixed placeholder; a job
  gives its own six entries, updated with \<^verbatim>\<open>job.extra_metadata\<close>
  (\<^verbatim>\<open>output.update(job.extra_metadata)\<close>: an entry of the metadata replaces an entry
  under the same key).
\<close>

definition job_summary :: "job \<Rightarrow> pydict" where
  "job_summary j =
     [''status'' \<mapsto> PState (state j),
      ''exception'' \<mapsto> PStr (str_py (exception j)),
      ''traceback'' \<mapsto> PStr (str_py (traceback j)),
      ''percentage'' \<mapsto> PFloat (percentage_progress j),
      ''id'' \<mapsto> PStr (job_id j),
      ''cancellable'' \<mapsto> PBool (cancellable j)]"

definition job_to_response :: "job option \<Rightarrow> pydict" where
  "job_to_response job =
     (case job of
        None \<Rightarrow>
          [''type'' \<mapsto> PNone,
           ''started_by'' \<mapsto> PNone,
           ''status'' \<mapsto> PState SCHEDULED,
           ''percentage'' \<mapsto> PInt 0,
           ''progress'' \<mapsto> PList [],
           ''id'' \<mapsto> PNone,
           ''cancellable'' \<mapsto> PBool False]
      | Some j \<Rightarrow> job_summary j ++ extra_metadata j)"

section \<open>The queue\<close>

text \<open>
  Modelled from the spec: the queue (\<^verbatim>\<open>kolibri.core.tasks.main.queue\<close>), which the task
  API imports and calls. The queue keeps the job records in its storage, hands out job
  identifiers, and knows which function references it can resolve.

  For a cancel request against a job that is not cancellable the spec states two
  outcomes. The data model and the testable properties have the request rejected and
  the state unchanged: \<^verbatim>\<open>if false, cancellation requests are rejected for this job\<close>,
  \<^verbatim>\<open>Cancelling a non-cancellable job is a no-op: state is unchanged\<close>. The description
  of the public operation has the job moved to CANCELED at once:
  \<^verbatim>\<open>If the job is not cancellable, is already terminal, or is in SCHEDULED/QUEUED,
  transition synchronously to CANCELED (or leave terminal state untouched)\<close>. Which of
  the two a queue does is its field \<^verbatim>\<open>rejects_uncancellable\<close>: true for the first
  outcome, false for the second.
\<close>

record queue =
  storage :: "string \<rightharpoonup> job"
  next_id :: nat
  registry :: "string list"
  rejects_uncancellable :: bool

text \<open>
  Modelled from the spec: the terminal states are COMPLETED, FAILED and CANCELED.
\<close>

definition terminal :: "state \<Rightarrow> bool" where
  "terminal s = (s = COMPLETED \<or> s = FAILED \<or> s = CANCELED)"

text \<open>
  Modelled from the spec: the rendering of a fresh job identifier. The identifier is
  opaque; the queue numbers its jobs and the identifier is the decimal numeral.
\<close>

fun decimal :: "nat \<Rightarrow> string" where
  "decimal n =
     (if n < 10 then [char_of (48 + n)]
      else decimal (n div 10) @ [char_of (48 + n mod 10)])"

declare decimal.simps [simp del]

text \<open>
  Modelled from the spec: \<^verbatim>\<open>fetch_job(job_id)\<close> of the queue, whose code is not part of
  the task API. It fails with \<^verbatim>\<open>JobNotFound\<close> if no record with that id exists.
\<close>

definition fetch_job :: "queue \<Rightarrow> string \<Rightarrow> exn + job" where
  "fetch_job q jid = (case storage q jid of None \<Rightarrow> Inl JobNotFound | Some j \<Rightarrow> Inr j)"

text \<open>
  Modelled from the spec: \<^verbatim>\<open>enqueue(function, *args, cancellable, track_progress,
  extra_metadata, **kwargs)\<close> of the queue. It fails with \<^verbatim>\<open>InvalidFunctionError\<close>
  if the function reference cannot be resolved, before any record is created; otherwise
  it creates a job in SCHEDULED with progress 0.0, persists it and returns its id.
\<close>

definition enqueue ::
  "queue \<Rightarrow> string \<Rightarrow> pyval list \<Rightarrow> pydict \<Rightarrow> bool \<Rightarrow> bool \<Rightarrow> pydict \<Rightarrow> exn + string \<times> queue"
where
  "enqueue q func as kws canc track meta =
     (if func \<in> set (registry q) then
        let jid = decimal (next_id q);
            j = \<lparr>job_id = jid, function_reference = func, args = as, kwargs = kws,
                 state = SCHEDULED, percentage_progress = 0, cancellable = canc,
                 track_progress = track, exception = None, traceback = None,
                 extra_metadata = meta\<rparr>
        in Inr (jid, q\<lparr>storage := (storage q)(jid \<mapsto> j), next_id := Suc (next_id q)\<rparr>)
      else Inl InvalidFunctionError)"

text \<open>
  Modelled from the spec: what a cancel request does to one job record. A terminal job
  is left untouched. A cancellable job becomes CANCELED at once when it is SCHEDULED or
  QUEUED and CANCELING when it is RUNNING; a CANCELING job has no transition on a
  further request. A job that is not cancellable and not terminal keeps its state when
  the queue rejects such requests, and becomes CANCELED at once otherwise.
\<close>

definition cancel_job :: "bool \<Rightarrow> job \<Rightarrow> job" where
  "cancel_job rejects j =
     (if terminal (state j) then j
      else if cancellable j then
        (case state j of
           SCHEDULED \<Rightarrow> j\<lparr>state := CANCELED\<rparr>
         | QUEUED \<Rightarrow> j\<lparr>state := CANCELED\<rparr>
         | RUNNING \<Rightarrow> j\<lparr>state := CANCELING\<rparr>
         | CANCELING \<Rightarrow> j
         | CANCELED \<Rightarrow> j
         | COMPLETED \<Rightarrow> j
         | FAILED \<Rightarrow> j)
      else if rejects then j
      else j\<lparr>state := CANCELED\<rparr>)"

text \<open>
  Modelled from the spec: \<^verbatim>\<open>cancel(job_id)\<close> of the queue. It fails with
  \<^verbatim>\<open>JobNotFound\<close> if the id does not exist.
\<close>

definition cancel :: "queue \<Rightarrow> string \<Rightarrow> exn + queue" where
  "cancel q jid =
     (case storage q jid of
        None \<Rightarrow> Inl JobNotFound
      | Some j \<Rightarrow>
          Inr (q\<lparr>storage := (storage q)(jid \<mapsto> cancel_job (rejects_uncancellable q) j)\<rparr>))"

text \<open>
  Modelled from the spec: \<^verbatim>\<open>empty()\<close> of the queue, which cancels every job as
  \<^verbatim>\<open>cancel\<close> does.
\<close>

definition empty_queue :: "queue \<Rightarrow> queue" where
  "empty_queue q =
     q\<lparr>storage :=
         (\<lambda>jid. map_option (cancel_job (rejects_uncancellable q)) (storage q jid))\<rparr>"

text \<open>
  Modelled from the spec: \<^verbatim>\<open>clear_job(job_id)\<close> of the queue. It fails with
  \<^verbatim>\<open>JobNotFound\<close> if the id is absent, removes a job in a terminal state, and ignores
  the request for any other job.
\<close>

definition clear_job :: "queue \<Rightarrow> string \<Rightarrow> exn + queue" where
  "clear_job q jid =
     (case storage q jid of
        None \<Rightarrow> Inl JobNotFound
      | Some j \<Rightarrow>
          if terminal (state j) then Inr (q\<lparr>storage := (storage q)(jid := None)\<rparr>)
          else Inr q)"

text \<open>
  Modelled from the spec: the clamping of a progress fraction to [0, 1].
\<close>

definition clamp_fraction :: "rat \<Rightarrow> rat" where
  "clamp_fraction f = max 0 (min 1 f)"

text \<open>
  Modelled from the spec: the \<^verbatim>\<open>update_progress(fraction)\<close> callable injected into the
  body of job \<^verbatim>\<open>jid\<close>. It clamps the fraction to [0, 1], does nothing if
  \<^verbatim>\<open>track_progress\<close> is false, and is ignored if the job is no longer RUNNING.
\<close>

definition update_progress :: "queue \<Rightarrow> string \<Rightarrow> rat \<Rightarrow> exn + queue" where
  "update_progress q jid fraction =
     (case storage q jid of
        None \<Rightarrow> Inl JobNotFound
      | Some j \<Rightarrow>
          if track_progress j \<and> state j = RUNNING then
            Inr (q\<lparr>storage :=
                   (storage q)(jid \<mapsto> j\<lparr>percentage_progress := clamp_fraction fraction\<rparr>)\<rparr>)
          else Inr q)"

section \<open>The endpoints of the task API\<close>

text \<open>
  An endpoint takes the queue and the request and returns its outcome with the queue
  after it. The outcome is either the dictionary given to \<^verbatim>\<open>Response\<close> (a success
  response) or the exception the endpoint raises: \<^verbatim>\<open>Http404\<close> and
  \<^verbatim>\<open>serializers.ValidationError\<close> are the user-facing not-found and validation errors.
\<close>

text \<open>
  \<^verbatim>\<open>TasksViewSet.retrieve(request, pk)\<close>: \<^verbatim>\<open>JobNotFound\<close> becomes \<^verbatim>\<open>Http404\<close> with the
  message \<^verbatim>\<open>"Task with {pk} not found".format(pk=pk)\<close>.
\<close>

definition retrieve :: "queue \<Rightarrow> string \<Rightarrow> exn + pydict" where
  "retrieve q pk =
     (case fetch_job q pk of
        Inr j \<Rightarrow> Inr (job_to_response (Some j))
      | Inl e \<Rightarrow>
          if e = JobNotFound then Inl (Http404 (''Task with '' @ pk @ '' not found''))
          else Inl e)"

text \<open>
  The body of a request, \<^verbatim>\<open>request.data\<close>, is whatever the parser made of it: a
  dictionary (\<^verbatim>\<open>PDict\<close>, the list of its items), but also a list, a string, a number or
  \<^verbatim>\<open>None\<close>. Python's \<^verbatim>\<open>key in data\<close> tests the keys of a dictionary, the elements of a
  list and the substrings of a string, and raises \<^verbatim>\<open>TypeError\<close> on a value that is no
  container. \<^verbatim>\<open>data[key]\<close> with a string key looks the key up in a dictionary
  (\<^verbatim>\<open>KeyError\<close> if it is missing) and raises \<^verbatim>\<open>TypeError\<close> on every other value. A
  state does not occur in a parsed body; it is taken with the values that are no
  containers.
\<close>

fun starts_with :: "string \<Rightarrow> string \<Rightarrow> bool" where
  "starts_with [] s = True"
| "starts_with (c # cs) [] = False"
| "starts_with (c # cs) (d # ds) = (c = d \<and> starts_with cs ds)"

fun has_substring :: "string \<Rightarrow> string \<Rightarrow> bool" where
  "has_substring sub [] = (sub = [])"
| "has_substring sub (d # ds) = (starts_with sub (d # ds) \<or> has_substring sub ds)"

fun py_contains :: "pyval \<Rightarrow> string \<Rightarrow> exn + bool" where
  "py_contains (PDict kvs) key = Inr (key \<in> set (map fst kvs))"
| "py_contains (PList xs) key = Inr (PStr key \<in> set xs)"
| "py_contains (PStr s) key = Inr (has_substring key s)"
| "py_contains PNone key = Inl TypeError"
| "py_contains (PBool b) key = Inl TypeError"
| "py_contains (PInt i) key = Inl TypeError"
| "py_contains (PFloat f) key = Inl TypeError"
| "py_contains (PState st) key = Inl TypeError"

fun py_getitem :: "pyval \<Rightarrow> string \<Rightarrow> exn + pyval" where
  "py_getitem (PDict kvs) key =
     (case map_of kvs key of None \<Rightarrow> Inl KeyError | Some v \<Rightarrow> Inr v)"
| "py_getitem (PList xs) key = Inl TypeError"
| "py_getitem (PStr s) key = Inl TypeError"
| "py_getitem PNone key = Inl TypeError"
| "py_getitem (PBool b) key = Inl TypeError"
| "py_getitem (PInt i) key = Inl TypeError"
| "py_getitem (PFloat f) key = Inl TypeError"
| "py_getitem (PState st) key = Inl TypeError"

text \<open>
  \<^verbatim>\<open>TasksViewSet.canceltask(request)\<close>. The arguments are \<^verbatim>\<open>queue.cancel\<close>, the queue and
  \<^verbatim>\<open>request.data\<close>. An exception of \<^verbatim>\<open>queue.cancel\<close> other than \<^verbatim>\<open>JobNotFound\<close> is not
  caught. The third component of the result lists the calls made to \<^verbatim>\<open>queue.cancel\<close>,
  by their argument.
\<close>

definition canceltask ::
  "('q \<Rightarrow> string \<Rightarrow> exn + 'q) \<Rightarrow> 'q \<Rightarrow> pyval \<Rightarrow> (exn + pydict) \<times> 'q \<times> string list"
where
  "canceltask queue_cancel q data =
     (case py_contains data ''task_id'' of
        Inl e \<Rightarrow> (Inl e, q, [])
      | Inr present \<Rightarrow>
          if present then
            (case py_getitem data ''task_id'' of
               Inl e \<Rightarrow> (Inl e, q, [])
             | Inr v \<Rightarrow>
                 (case v of
                    PStr task_id \<Rightarrow>
                      (case queue_cancel q task_id of
                         Inr q' \<Rightarrow> (Inr Map.empty, q', [task_id])
                       | Inl e \<Rightarrow>
                           if e = JobNotFound then (Inr Map.empty, q, [task_id])
                           else (Inl e, q, [task_id]))
                  | _ \<Rightarrow>
                      (Inl (ValidationError ''The 'task_id' should be a string.''), q, [])))
          else (Inl (ValidationError ''The 'task_id' field is required.''), q, []))"

text \<open>
  \<^verbatim>\<open>TasksViewSet.cleartask(request)\<close>: \<^verbatim>\<open>request.data.get("task_id")\<close> is tested for
  truth; an exception of \<^verbatim>\<open>queue.clear_job\<close> is not caught. The storage is keyed by
  strings, so a task id that is not a string names no record.
\<close>

definition cleartask :: "queue \<Rightarrow> pydict \<Rightarrow> (exn + pydict) \<times> queue" where
  "cleartask q data =
     (case data ''task_id'' of
        None \<Rightarrow> (Inr Map.empty, q)
      | Some task_id \<Rightarrow>
          if truthy task_id then
            (case task_id of
               PStr s \<Rightarrow>
                 (case clear_job q s of
                    Inl e \<Rightarrow> (Inl e, q)
                  | Inr q' \<Rightarrow> (Inr [''task_id'' \<mapsto> task_id], q'))
             | _ \<Rightarrow> (Inl JobNotFound, q))
          else (Inr Map.empty, q))"

section \<open>The disk export job\<close>

text \<open>
  The body of a disk export works on the drive's files. A file system is the set of
  existing paths and the set of paths whose removal the system refuses.
  \<^verbatim>\<open>os.remove(path)\<close> deletes an existing path, and raises \<^verbatim>\<open>OSError\<close> (leaving the files
  as they are) if the path does not exist or may not be removed.
\<close>

record filesystem =
  files :: "string set"
  locked :: "string set"

definition os_remove :: "string \<Rightarrow> filesystem \<Rightarrow> exn option \<times> filesystem" where
  "os_remove path fs =
     (if path \<in> files fs \<and> path \<notin> locked fs then (None, fs\<lparr>files := files fs - {path}\<rparr>)
      else (Some OSError, fs))"

record drive =
  datafolder :: string

datatype command =
    Exportchannel string string
  | Exportcontent string string pyval pyval

text \<open>
  \<^verbatim>\<open>_localexport(channel_id, drive_id, update_progress, check_for_cancel, node_ids,
  exclude_node_ids)\<close>. The management commands, the drive lookup and the path of a
  channel's database file are code outside the task API and are parameters here:
  \<^verbatim>\<open>call_command\<close> runs a command on the files and may raise,
  \<^verbatim>\<open>get_mounted_drive_by_id\<close> may raise, \<^verbatim>\<open>get_content_database_file_path\<close> computes
  a path from the channel id and the data folder. The progress and cancellation
  callables are handed to the commands unchanged and are part of \<^verbatim>\<open>call_command\<close>.
\<close>

definition localexport ::
  "(command \<Rightarrow> filesystem \<Rightarrow> exn option \<times> filesystem) \<Rightarrow> (string \<Rightarrow> exn + drive) \<Rightarrow>
   (string \<Rightarrow> string \<Rightarrow> string) \<Rightarrow> string \<Rightarrow> string \<Rightarrow> pyval \<Rightarrow> pyval \<Rightarrow> filesystem \<Rightarrow>
   exn option \<times> filesystem"
where
  "localexport call_command get_mounted_drive_by_id get_content_database_file_path
     channel_id drive_id node_ids exclude_node_ids fs =
     (case get_mounted_drive_by_id drive_id of
        Inl e \<Rightarrow> (Some e, fs)
      | Inr drv \<Rightarrow>
          (case call_command (Exportchannel channel_id (datafolder drv)) fs of
             (Some e, fs1) \<Rightarrow> (Some e, fs1)
           | (None, fs1) \<Rightarrow>
               (case call_command
                       (Exportcontent channel_id (datafolder drv) node_ids exclude_node_ids)
                       fs1 of
                  (None, fs2) \<Rightarrow> (None, fs2)
                | (Some e, fs2) \<Rightarrow>
                    if e = UserCancelledError then
                      (case os_remove
                              (get_content_database_file_path channel_id (datafolder drv))
                              fs2 of
                         (None, fs3) \<Rightarrow> (Some e, fs3)
                       | (Some e', fs3) \<Rightarrow>
                           if e' = OSError then (Some e, fs3) else (Some e', fs3))
                    else (Some e, fs2))))"

section \<open>Sample data\<close>

text \<open>
  A job as \<^verbatim>\<open>startremotechannelimport\<close> enqueues it, and queues that hold it in several
  states.
\<close>

definition import_job :: job where
  "import_job =
     \<lparr>job_id = ''0'', function_reference = ''call_command'',
      args = [PStr ''importchannel'', PStr ''network'', PStr ''c1''],
      kwargs = [''baseurl'' \<mapsto> PStr ''http://peer'', ''peer_id'' \<mapsto> PNone],
      state = QUEUED, percentage_progress = 0, cancellable = True,
      track_progress = False, exception = None, traceback = None,
      extra_metadata =
        [''type'' \<mapsto> PStr ''REMOTECHANNELIMPORT'', ''channel_id'' \<mapsto> PStr ''c1'']\<rparr>"

definition fresh_queue :: queue where
  "fresh_queue =
     \<lparr>storage = Map.empty, next_id = 0, registry = [''call_command''],
      rejects_uncancellable = True\<rparr>"

definition queue_with :: "job \<Rightarrow> queue" where
  "queue_with j =
     \<lparr>storage = [job_id j \<mapsto> j], next_id = 1, registry = [''call_command''],
      rejects_uncancellable = True\<rparr>"

text \<open>
  A drive, the path of a channel's database file on it, and an export whose
  \<^verbatim>\<open>exportchannel\<close> step writes that file and whose \<^verbatim>\<open>exportcontent\<close> step is cancelled
  by the user.
\<close>

definition usb_drives :: "string \<Rightarrow> exn + drive" where
  "usb_drives drive_id =
     (if drive_id = ''d1'' then Inr \<lparr>datafolder = ''/mnt/usb''\<rparr> else Inl KeyError)"

definition database_file_path :: "string \<Rightarrow> string \<Rightarrow> string" where
  "database_file_path channel_id folder =
     folder @ ''/content/databases/'' @ channel_id @ ''.sqlite3''"

fun cancelled_export :: "command \<Rightarrow> filesystem \<Rightarrow> exn option \<times> filesystem" where
  "cancelled_export (Exportchannel channel_id folder) fs =
     (None, fs\<lparr>files := insert (database_file_path channel_id folder) (files fs)\<rparr>)"
| "cancelled_export (Exportcontent channel_id folder node_ids exclude_node_ids) fs =
     (Some UserCancelledError, fs)"

section \<open>Properties of the summary\<close>

lemma job_summary_dom:
  "dom (job_summary j) =
     {''status'', ''exception'', ''traceback'', ''percentage'', ''id'', ''cancellable''}"
  by (auto simp: job_summary_def split: if_splits)

text \<open>
  C8. Applied to a missing job, \<^verbatim>\<open>_job_to_response\<close> does not fail: it returns the fixed
  placeholder with status SCHEDULED, percentage 0, id None, cancellable False, an empty
  progress list, and type and started_by None; the placeholder has no other entry.
\<close>

theorem job_to_response_placeholder:
  "job_to_response None ''status'' = Some (PState SCHEDULED)
   \<and> job_to_response None ''percentage'' = Some (PInt 0)
   \<and> job_to_response None ''id'' = Some PNone
   \<and> job_to_response None ''cancellable'' = Some (PBool False)
   \<and> job_to_response None ''progress'' = Some (PList [])
   \<and> job_to_response None ''type'' = Some PNone
   \<and> job_to_response None ''started_by'' = Some PNone
   \<and> dom (job_to_response None) =
       {''type'', ''started_by'', ''status'', ''percentage'', ''progress'', ''id'',
        ''cancellable''}"
  by (auto simp: job_to_response_def split: if_splits)

text \<open>
  C1, as the code has it. The summary of a job carries every entry of the caller's
  \<^verbatim>\<open>extra_metadata\<close> verbatim, and under each of the keys status, percentage, id,
  cancellable, exception and traceback that the metadata does not use, the job's own
  value (state, percentage_progress, job_id, the cancellable flag, and the exception and
  traceback as strings); it has no other entry.
\<close>

theorem job_to_response_merge:
  "(extra_metadata j k = Some v \<longrightarrow> job_to_response (Some j) k = Some v)
   \<and> (extra_metadata j ''status'' = None \<longrightarrow>
        job_to_response (Some j) ''status'' = Some (PState (state j)))
   \<and> (extra_metadata j ''percentage'' = None \<longrightarrow>
        job_to_response (Some j) ''percentage'' = Some (PFloat (percentage_progress j)))
   \<and> (extra_metadata j ''id'' = None \<longrightarrow>
        job_to_response (Some j) ''id'' = Some (PStr (job_id j)))
   \<and> (extra_metadata j ''cancellable'' = None \<longrightarrow>
        job_to_response (Some j) ''cancellable'' = Some (PBool (cancellable j)))
   \<and> (extra_metadata j ''exception'' = None \<longrightarrow>
        job_to_response (Some j) ''exception'' = Some (PStr (str_py (exception j))))
   \<and> (extra_metadata j ''traceback'' = None \<longrightarrow>
        job_to_response (Some j) ''traceback'' = Some (PStr (str_py (traceback j))))
   \<and> dom (job_to_response (Some j)) =
       {''status'', ''exception'', ''traceback'', ''percentage'', ''id'', ''cancellable''}
       \<union> dom (extra_metadata j)"
proof -
  have d: "dom (job_to_response (Some j)) =
       {''status'', ''exception'', ''traceback'', ''percentage'', ''id'', ''cancellable''}
       \<union> dom (extra_metadata j)"
    by (simp add: job_to_response_def job_summary_dom Un_commute)
  have m: "extra_metadata j k = Some v \<longrightarrow> job_to_response (Some j) k = Some v"
    by (simp add: job_to_response_def map_add_def)
  have o: "extra_metadata j x = None \<longrightarrow> job_to_response (Some j) x = job_summary j x" for x
    by (simp add: job_to_response_def map_add_def)
  show ?thesis
    using d m o [of "''status''"] o [of "''percentage''"] o [of "''id''"]
      o [of "''cancellable''"] o [of "''exception''"] o [of "''traceback''"]
    by (simp add: job_summary_def)
qed

theorem job_to_response_merge_witness:
  "extra_metadata import_job ''type'' = Some (PStr ''REMOTECHANNELIMPORT'')
   \<and> job_to_response (Some import_job) ''type'' = Some (PStr ''REMOTECHANNELIMPORT'')
   \<and> extra_metadata import_job ''status'' = None
   \<and> job_to_response (Some import_job) ''status'' = Some (PState QUEUED)
   \<and> extra_metadata import_job ''percentage'' = None
   \<and> job_to_response (Some import_job) ''percentage'' = Some (PFloat 0)
   \<and> extra_metadata import_job ''id'' = None
   \<and> job_to_response (Some import_job) ''id'' = Some (PStr ''0'')
   \<and> extra_metadata import_job ''cancellable'' = None
   \<and> job_to_response (Some import_job) ''cancellable'' = Some (PBool True)
   \<and> extra_metadata import_job ''exception'' = None
   \<and> job_to_response (Some import_job) ''exception'' = Some (PStr ''None'')
   \<and> extra_metadata import_job ''traceback'' = None
   \<and> job_to_response (Some import_job) ''traceback'' = Some (PStr ''None'')"
  using job_to_response_merge [of import_job "''type''" "PStr ''REMOTECHANNELIMPORT''"]
  by (simp add: import_job_def str_py_def)

text \<open>
  C1 as stated fails: a metadata entry under the key id replaces the job's own id in the
  summary.
\<close>

theorem job_to_response_id_replaced:
  "job_id (import_job\<lparr>extra_metadata := [''id'' \<mapsto> PStr ''other'']\<rparr>) = ''0''
   \<and> job_to_response (Some (import_job\<lparr>extra_metadata := [''id'' \<mapsto> PStr ''other'']\<rparr>)) ''id''
       = Some (PStr ''other'')
   \<and> job_to_response (Some (import_job\<lparr>extra_metadata := [''id'' \<mapsto> PStr ''other'']\<rparr>)) ''id''
       \<noteq> Some (PStr (job_id (import_job\<lparr>extra_metadata := [''id'' \<mapsto> PStr ''other'']\<rparr>)))"
  by (simp add: job_to_response_def import_job_def)

section \<open>Properties of the queue and the endpoints\<close>

lemma storage_upd_same: "storage q jid = Some j \<Longrightarrow> q\<lparr>storage := (storage q)(jid \<mapsto> j)\<rparr> = q"
  by (simp add: map_upd_triv)

lemma cancel_absent: "storage q jid = None \<Longrightarrow> cancel q jid = Inl JobNotFound"
  by (simp add: cancel_def)

lemma cancel_job_terminal: "terminal (state j) \<Longrightarrow> cancel_job rejects j = j"
  by (simp add: cancel_job_def)

lemma cancel_present: "storage q jid = Some j \<Longrightarrow>
    cancel q jid =
      Inr (q\<lparr>storage := (storage q)(jid \<mapsto> cancel_job (rejects_uncancellable q) j)\<rparr>)"
  by (simp add: cancel_def)

lemma task_id_present: "map_of kvs key = Some v \<Longrightarrow> key \<in> fst ` set kvs"
  by (metis domI dom_map_of_conv_image_fst)

lemma task_id_missing: "map_of kvs key = None \<Longrightarrow> key \<notin> fst ` set kvs"
  by (simp add: map_of_eq_None_iff)

text \<open>
  C2, as the code has it. For every cancel request whose job id is absent from storage,
  the \<^verbatim>\<open>JobNotFound\<close> error raised by \<^verbatim>\<open>queue.cancel\<close> is caught by the cancel endpoint
  (\<^verbatim>\<open>except JobNotFound: pass\<close>), which answers with the empty success response and
  leaves the queue unchanged; so it is whenever \<^verbatim>\<open>queue.cancel\<close> raises
  \<^verbatim>\<open>JobNotFound\<close> for the task id of the request.
\<close>

theorem canceltask_absent_job:
  "map_of kvs ''task_id'' = Some (PStr task_id) \<Longrightarrow>
     (queue_cancel s task_id = Inl JobNotFound \<longrightarrow>
        canceltask queue_cancel s (PDict kvs) = (Inr Map.empty, s, [task_id]))
     \<and> (storage q task_id = None \<longrightarrow>
        cancel q task_id = Inl JobNotFound
        \<and> canceltask cancel q (PDict kvs) = (Inr Map.empty, q, [task_id]))"
  by (simp add: canceltask_def task_id_present cancel_absent)

theorem canceltask_absent_job_witness:
  "map_of [(''task_id'', PStr ''7'')] ''task_id'' = Some (PStr ''7'')
   \<and> cancel fresh_queue ''7'' = Inl JobNotFound
   \<and> storage fresh_queue ''7'' = None
   \<and> canceltask cancel fresh_queue (PDict [(''task_id'', PStr ''7'')])
       = (Inr Map.empty, fresh_queue, [''7''])"
  using canceltask_absent_job
    [where kvs = "[(''task_id'', PStr ''7'')]" and task_id = "''7''" and q = fresh_queue
       and queue_cancel = cancel and s = fresh_queue]
  by (simp add: fresh_queue_def cancel_def)

text \<open>
  C2 as stated fails: for a task id that no record has, the cancel endpoint answers with
  the empty success response, not with a not-found error.
\<close>

theorem canceltask_not_found_is_success:
  "storage fresh_queue ''7'' = None
   \<and> cancel fresh_queue ''7'' = Inl JobNotFound
   \<and> fst (canceltask cancel fresh_queue (PDict [(''task_id'', PStr ''7'')])) = Inr Map.empty
   \<and> fst (canceltask cancel fresh_queue (PDict [(''task_id'', PStr ''7'')]))
       \<noteq> Inl (Http404 ''Task with 7 not found'')"
  by (simp add: canceltask_def cancel_def fresh_queue_def)

text \<open>
  C3. A fetch of a job id for which no record exists fails with \<^verbatim>\<open>JobNotFound\<close>, and
  the retrieve endpoint turns it into \<^verbatim>\<open>Http404\<close> with a message naming the id; so it
  is for the id of a terminal job after \<^verbatim>\<open>clear_job\<close> has removed it.
\<close>

theorem retrieve_not_found:
  "(storage q pk = None \<longrightarrow>
      fetch_job q pk = Inl JobNotFound
      \<and> retrieve q pk = Inl (Http404 (''Task with '' @ pk @ '' not found'')))
   \<and> (storage q pk = Some j \<and> terminal (state j) \<longrightarrow>
      (\<exists>q'. clear_job q pk = Inr q'
         \<and> fetch_job q' pk = Inl JobNotFound
         \<and> retrieve q' pk = Inl (Http404 (''Task with '' @ pk @ '' not found''))))"
  by (simp add: retrieve_def fetch_job_def clear_job_def)

theorem retrieve_not_found_witness:
  "storage fresh_queue ''7'' = None
   \<and> fetch_job fresh_queue ''7'' = Inl JobNotFound
   \<and> retrieve fresh_queue ''7'' = Inl (Http404 ''Task with 7 not found'')
   \<and> storage (queue_with (import_job\<lparr>state := COMPLETED\<rparr>)) ''0''
       = Some (import_job\<lparr>state := COMPLETED\<rparr>)
   \<and> terminal (state (import_job\<lparr>state := COMPLETED\<rparr>))
   \<and> (\<exists>q'. clear_job (queue_with (import_job\<lparr>state := COMPLETED\<rparr>)) ''0'' = Inr q'
         \<and> fetch_job q' ''0'' = Inl JobNotFound
         \<and> retrieve q' ''0'' = Inl (Http404 ''Task with 0 not found''))"
  using retrieve_not_found [where q = fresh_queue and pk = "''7''"]
    retrieve_not_found
      [where q = "queue_with (import_job\<lparr>state := COMPLETED\<rparr>)" and pk = "''0''"
         and j = "import_job\<lparr>state := COMPLETED\<rparr>"]
  by (simp add: fresh_queue_def queue_with_def import_job_def terminal_def)

text \<open>
  The cancel endpoint on a dictionary: a validation error, no call to \<^verbatim>\<open>queue.cancel\<close>
  and the queue as it was when the dictionary has no task_id or a task_id that is not a
  string; for a string task_id one call to \<^verbatim>\<open>queue.cancel\<close>, with that id, and the
  empty success response when the call returns or raises \<^verbatim>\<open>JobNotFound\<close>.
\<close>

lemma canceltask_dict_missing:
  "map_of kvs ''task_id'' = None \<Longrightarrow>
     canceltask queue_cancel q (PDict kvs)
       = (Inl (ValidationError ''The 'task_id' field is required.''), q, [])"
  by (simp add: canceltask_def task_id_missing)

lemma canceltask_dict_not_string:
  "map_of kvs ''task_id'' = Some v \<Longrightarrow> \<forall>s. v \<noteq> PStr s \<Longrightarrow>
     canceltask queue_cancel q (PDict kvs)
       = (Inl (ValidationError ''The 'task_id' should be a string.''), q, [])"
  by (cases v) (simp_all add: canceltask_def task_id_present)

lemma canceltask_dict_string:
  "map_of kvs ''task_id'' = Some (PStr s) \<Longrightarrow>
     snd (snd (canceltask queue_cancel q (PDict kvs))) = [s]
     \<and> (queue_cancel q s = Inr q' \<longrightarrow>
          canceltask queue_cancel q (PDict kvs) = (Inr Map.empty, q', [s]))
     \<and> (queue_cancel q s = Inl JobNotFound \<longrightarrow>
          canceltask queue_cancel q (PDict kvs) = (Inr Map.empty, q, [s]))"
  by (cases "queue_cancel q s") (simp_all add: canceltask_def task_id_present)

text \<open>
  C10 fails on the code for a body that is no dictionary. The body \<^verbatim>\<open>["task_id"]\<close>, a
  list, has no task_id key, but \<^verbatim>\<open>"task_id" not in request.data\<close> is false for it, and
  \<^verbatim>\<open>request.data["task_id"]\<close> then raises \<^verbatim>\<open>TypeError\<close>: the request is not rejected
  with a validation error. So it is for the string \<^verbatim>\<open>"task_id"\<close>, and for \<^verbatim>\<open>None\<close>,
  where the membership test itself raises. \<^verbatim>\<open>queue.cancel\<close> is not called.
\<close>

theorem canceltask_list_body:
  "canceltask cancel fresh_queue (PList [PStr ''task_id'']) = (Inl TypeError, fresh_queue, [])
   \<and> canceltask cancel fresh_queue (PStr ''task_id'') = (Inl TypeError, fresh_queue, [])
   \<and> canceltask cancel fresh_queue PNone = (Inl TypeError, fresh_queue, [])"
  by (simp add: canceltask_def)

text \<open>
  C4. An enqueue of a resolvable function returns a job id, and for every job id that
  \<^verbatim>\<open>enqueue\<close> returns, \<^verbatim>\<open>fetch_job\<close> on the queue right after it returns a record with
  that id, whose state is SCHEDULED or QUEUED and whose percentage_progress is 0.0.
\<close>

theorem enqueue_then_fetch:
  "(func \<in> set (registry q) \<longrightarrow>
      (\<exists>jid q'. enqueue q func as kws canc track meta = Inr (jid, q')))
   \<and> (enqueue q func as kws canc track meta = Inr (jid, q') \<longrightarrow>
      (\<exists>j. fetch_job q' jid = Inr j
         \<and> (state j = SCHEDULED \<or> state j = QUEUED)
         \<and> percentage_progress j = 0
         \<and> job_id j = jid))"
  by (auto simp: enqueue_def fetch_job_def Let_def split: if_splits)

theorem enqueue_then_fetch_witness:
  "''call_command'' \<in> set (registry fresh_queue)
   \<and> (\<exists>jid q'. enqueue fresh_queue ''call_command'' [PStr ''importchannel''] Map.empty True False
              [''type'' \<mapsto> PStr ''REMOTECHANNELIMPORT''] = Inr (jid, q')
         \<and> (\<exists>j. fetch_job q' jid = Inr j \<and> (state j = SCHEDULED \<or> state j = QUEUED)
               \<and> percentage_progress j = 0 \<and> job_id j = jid))"
proof -
  note t = enqueue_then_fetch
    [where func = "''call_command''" and q = fresh_queue and as = "[PStr ''importchannel'']"
       and kws = Map.empty and canc = True and track = False
       and meta = "[''type'' \<mapsto> PStr ''REMOTECHANNELIMPORT'']"]
  have r: "''call_command'' \<in> set (registry fresh_queue)"
    by (simp add: fresh_queue_def)
  from t r obtain jid q' where e:
    "enqueue fresh_queue ''call_command'' [PStr ''importchannel''] Map.empty True False
       [''type'' \<mapsto> PStr ''REMOTECHANNELIMPORT''] = Inr (jid, q')"
    by blast
  from t [where jid = jid and q' = q'] e obtain j where
    "fetch_job q' jid = Inr j" "state j = SCHEDULED \<or> state j = QUEUED"
    "percentage_progress j = 0" "job_id j = jid"
    by blast
  with r e show ?thesis by blast
qed

text \<open>
  C6. A job in a terminal state (COMPLETED, FAILED or CANCELED) is not moved to another
  state: a cancel request and a progress update against it raise no error and leave the
  queue unchanged, and emptying the queue leaves its record unchanged.
\<close>

theorem terminal_job_unchanged:
  "storage q jid = Some j \<Longrightarrow> terminal (state j) \<Longrightarrow>
     cancel q jid = Inr q
     \<and> update_progress q jid fraction = Inr q
     \<and> storage (empty_queue q) jid = Some j"
  by (auto simp: cancel_present cancel_job_terminal storage_upd_same update_progress_def
      empty_queue_def terminal_def)

theorem terminal_job_unchanged_witness:
  "storage (queue_with (import_job\<lparr>state := FAILED, track_progress := True\<rparr>)) ''0''
     = Some (import_job\<lparr>state := FAILED, track_progress := True\<rparr>)
   \<and> terminal (state (import_job\<lparr>state := FAILED, track_progress := True\<rparr>))
   \<and> cancel (queue_with (import_job\<lparr>state := FAILED, track_progress := True\<rparr>)) ''0''
       = Inr (queue_with (import_job\<lparr>state := FAILED, track_progress := True\<rparr>))
   \<and> update_progress (queue_with (import_job\<lparr>state := FAILED, track_progress := True\<rparr>))
         ''0'' (1 / 2)
       = Inr (queue_with (import_job\<lparr>state := FAILED, track_progress := True\<rparr>))
   \<and> storage (empty_queue (queue_with (import_job\<lparr>state := FAILED, track_progress := True\<rparr>)))
         ''0''
       = Some (import_job\<lparr>state := FAILED, track_progress := True\<rparr>)"
  using terminal_job_unchanged
    [where q = "queue_with (import_job\<lparr>state := FAILED, track_progress := True\<rparr>)"
       and jid = "''0''" and j = "import_job\<lparr>state := FAILED, track_progress := True\<rparr>"
       and fraction = "1 / 2"]
  by (simp add: queue_with_def import_job_def terminal_def)

text \<open>
  C7. For a job id in storage, \<^verbatim>\<open>clear_job\<close> removes the record when the job is in a
  terminal state, after which \<^verbatim>\<open>fetch_job\<close> on that id raises \<^verbatim>\<open>JobNotFound\<close>; when
  the job is not terminal it raises nothing and leaves the queue, and so the record,
  as it is. The cleartask endpoint does the same for a non-empty task id and answers
  with the task id.
\<close>

theorem clear_job_terminal_only:
  "storage q jid = Some j \<Longrightarrow>
     (terminal (state j) \<longrightarrow>
        (\<exists>q'. clear_job q jid = Inr q'
           \<and> storage q' jid = None
           \<and> fetch_job q' jid = Inl JobNotFound
           \<and> (jid \<noteq> [] \<longrightarrow>
               cleartask q [''task_id'' \<mapsto> PStr jid] = (Inr [''task_id'' \<mapsto> PStr jid], q'))))
     \<and> (\<not> terminal (state j) \<longrightarrow>
        clear_job q jid = Inr q
        \<and> fetch_job q jid = Inr j
        \<and> (jid \<noteq> [] \<longrightarrow>
            cleartask q [''task_id'' \<mapsto> PStr jid] = (Inr [''task_id'' \<mapsto> PStr jid], q)))"
  by (auto simp: clear_job_def fetch_job_def cleartask_def)

theorem clear_job_terminal_only_witness:
  "storage (queue_with (import_job\<lparr>state := COMPLETED\<rparr>)) ''0''
     = Some (import_job\<lparr>state := COMPLETED\<rparr>)
   \<and> terminal (state (import_job\<lparr>state := COMPLETED\<rparr>))
   \<and> (\<exists>q'. clear_job (queue_with (import_job\<lparr>state := COMPLETED\<rparr>)) ''0'' = Inr q'
         \<and> storage q' ''0'' = None
         \<and> fetch_job q' ''0'' = Inl JobNotFound
         \<and> cleartask (queue_with (import_job\<lparr>state := COMPLETED\<rparr>)) [''task_id'' \<mapsto> PStr ''0'']
             = (Inr [''task_id'' \<mapsto> PStr ''0''], q'))
   \<and> storage (queue_with (import_job\<lparr>state := RUNNING\<rparr>)) ''0''
       = Some (import_job\<lparr>state := RUNNING\<rparr>)
   \<and> \<not> terminal (state (import_job\<lparr>state := RUNNING\<rparr>))
   \<and> clear_job (queue_with (import_job\<lparr>state := RUNNING\<rparr>)) ''0''
       = Inr (queue_with (import_job\<lparr>state := RUNNING\<rparr>))
   \<and> fetch_job (queue_with (import_job\<lparr>state := RUNNING\<rparr>)) ''0''
       = Inr (import_job\<lparr>state := RUNNING\<rparr>)
   \<and> cleartask (queue_with (import_job\<lparr>state := RUNNING\<rparr>)) [''task_id'' \<mapsto> PStr ''0'']
       = (Inr [''task_id'' \<mapsto> PStr ''0''], queue_with (import_job\<lparr>state := RUNNING\<rparr>))"
  using clear_job_terminal_only
    [where q = "queue_with (import_job\<lparr>state := COMPLETED\<rparr>)" and jid = "''0''"
       and j = "import_job\<lparr>state := COMPLETED\<rparr>"]
    clear_job_terminal_only
    [where q = "queue_with (import_job\<lparr>state := RUNNING\<rparr>)" and jid = "''0''"
       and j = "import_job\<lparr>state := RUNNING\<rparr>"]
  by (simp add: queue_with_def import_job_def terminal_def)

lemma os_remove_absent:
  "path \<notin> locked fs \<Longrightarrow> path \<notin> files (snd (os_remove path fs))"
  by (simp add: os_remove_def)

text \<open>
  C9. If the exportcontent step of \<^verbatim>\<open>_localexport\<close> raises \<^verbatim>\<open>UserCancelledError\<close>, the
  function attempts \<^verbatim>\<open>os.remove\<close> on the channel's database file on the drive, whatever
  the outcome of the removal (an \<^verbatim>\<open>OSError\<close> is swallowed) it raises
  \<^verbatim>\<open>UserCancelledError\<close>, and the files are those the removal left: unless the system
  refuses the removal, the database file is not on the drive afterwards.
\<close>

theorem localexport_cancelled:
  "get_drive drive_id = Inr drv \<Longrightarrow>
   call_command (Exportchannel channel_id (datafolder drv)) fs = (None, fsa) \<Longrightarrow>
   call_command (Exportcontent channel_id (datafolder drv) node_ids exclude_node_ids) fsa
     = (Some UserCancelledError, fsb) \<Longrightarrow>
   localexport call_command get_drive db_path channel_id drive_id node_ids exclude_node_ids fs
     = (Some UserCancelledError, snd (os_remove (db_path channel_id (datafolder drv)) fsb))
   \<and> (db_path channel_id (datafolder drv) \<notin> locked fsb \<longrightarrow>
        db_path channel_id (datafolder drv)
          \<notin> files (snd (localexport call_command get_drive db_path channel_id drive_id
                            node_ids exclude_node_ids fs)))"
proof -
  assume a: "get_drive drive_id = Inr drv"
    "call_command (Exportchannel channel_id (datafolder drv)) fs = (None, fsa)"
    "call_command (Exportcontent channel_id (datafolder drv) node_ids exclude_node_ids) fsa
       = (Some UserCancelledError, fsb)"
  have r: "localexport call_command get_drive db_path channel_id drive_id node_ids
             exclude_node_ids fs
           = (Some UserCancelledError, snd (os_remove (db_path channel_id (datafolder drv)) fsb))"
    using a by (simp add: localexport_def os_remove_def)
  show ?thesis
    using r os_remove_absent [of "db_path channel_id (datafolder drv)" fsb] by simp
qed

theorem localexport_cancelled_witness:
  "usb_drives ''d1'' = Inr \<lparr>datafolder = ''/mnt/usb''\<rparr>
   \<and> cancelled_export (Exportchannel ''c1'' ''/mnt/usb'') \<lparr>files = {}, locked = {}\<rparr>
       = (None, \<lparr>files = {''/mnt/usb/content/databases/c1.sqlite3''}, locked = {}\<rparr>)
   \<and> cancelled_export (Exportcontent ''c1'' ''/mnt/usb'' PNone PNone)
         \<lparr>files = {''/mnt/usb/content/databases/c1.sqlite3''}, locked = {}\<rparr>
       = (Some UserCancelledError,
          \<lparr>files = {''/mnt/usb/content/databases/c1.sqlite3''}, locked = {}\<rparr>)
   \<and> localexport cancelled_export usb_drives database_file_path ''c1'' ''d1'' PNone PNone
         \<lparr>files = {}, locked = {}\<rparr>
       = (Some UserCancelledError, \<lparr>files = {}, locked = {}\<rparr>)
   \<and> localexport cancelled_export usb_drives database_file_path ''c1'' ''d1'' PNone PNone
         \<lparr>files = {}, locked = {''/mnt/usb/content/databases/c1.sqlite3''}\<rparr>
       = (Some UserCancelledError,
          \<lparr>files = {''/mnt/usb/content/databases/c1.sqlite3''},
           locked = {''/mnt/usb/content/databases/c1.sqlite3''}\<rparr>)"
  using localexport_cancelled
    [where get_drive = usb_drives and drive_id = "''d1''"
       and drv = "\<lparr>datafolder = ''/mnt/usb''\<rparr>" and call_command = cancelled_export
       and channel_id = "''c1''"
       and fs = "\<lparr>files = {}, locked = {''/mnt/usb/content/databases/c1.sqlite3''}\<rparr>"
       and fsa = "\<lparr>files = {''/mnt/usb/content/databases/c1.sqlite3''},
                   locked = {''/mnt/usb/content/databases/c1.sqlite3''}\<rparr>"
       and fsb = "\<lparr>files = {''/mnt/usb/content/databases/c1.sqlite3''},
                   locked = {''/mnt/usb/content/databases/c1.sqlite3''}\<rparr>"
       and node_ids = PNone and exclude_node_ids = PNone and db_path = database_file_path]
    localexport_cancelled
    [where get_drive = usb_drives and drive_id = "''d1''"
       and drv = "\<lparr>datafolder = ''/mnt/usb''\<rparr>" and call_command = cancelled_export
       and channel_id = "''c1''" and fs = "\<lparr>files = {}, locked = {}\<rparr>"
       and fsa = "\<lparr>files = {''/mnt/usb/content/databases/c1.sqlite3''}, locked = {}\<rparr>"
       and fsb = "\<lparr>files = {''/mnt/usb/content/databases/c1.sqlite3''}, locked = {}\<rparr>"
       and node_ids = PNone and exclude_node_ids = PNone and db_path = database_file_path]
  by (simp add: usb_drives_def database_file_path_def os_remove_def)

end
